theory Spec2Isabelle
  imports Complex_Main "HOL-Library.Sublist"
begin

section \<open>Values and exceptions of the Python program\<close>

text \<open>
  The advisory tool (\<^verbatim>\<open>Kisaan-Mitra.py\<close>) works on whatever \<^verbatim>\<open>response.json()\<close>
  hands back, so the values it handles are the Python images of JSON: \<^verbatim>\<open>None\<close>,
  \<^verbatim>\<open>bool\<close>, \<^verbatim>\<open>int\<close>/\<^verbatim>\<open>float\<close>, \<^verbatim>\<open>str\<close>, \<^verbatim>\<open>list\<close> and \<^verbatim>\<open>dict\<close>.
  Finite numbers are rationals (Python compares \<^verbatim>\<open>int\<close> and \<^verbatim>\<open>float\<close> exactly, and
  every threshold of the program is exactly representable); the non-standard tokens
  \<^verbatim>\<open>NaN\<close> and \<^verbatim>\<open>Infinity\<close> are outside the model. A \<^verbatim>\<open>str\<close> is the list of its UTF-8
  bytes. A \<^verbatim>\<open>dict\<close> is the list of its items (keys are strings and occur once).
\<close>

datatype json =
    JNull
  | JBool bool
  | JNum rat
  | JStr string
  | JArr "json list"
  | JObj "(string \<times> json) list"

text \<open>
  The exceptions the program can meet. \<open>RequestException\<close> stands for everything that
  \<^verbatim>\<open>requests.get\<close>, \<^verbatim>\<open>raise_for_status\<close> and \<^verbatim>\<open>response.json\<close> raise (connection
  error, timeout, non-2xx status, undecodable body); it carries the cause as text.
\<close>

datatype pyexn =
    RequestException string
  | TypeError
  | KeyError
  | IndexError
  | AttributeError

definition py_bind :: "pyexn + 'a \<Rightarrow> ('a \<Rightarrow> pyexn + 'b) \<Rightarrow> pyexn + 'b" where
  "py_bind m f = (case m of Inl e \<Rightarrow> Inl e | Inr a \<Rightarrow> f a)"

text \<open>\<^verbatim>\<open>a and b\<close> on comparisons: \<open>b\<close> is evaluated only when \<open>a\<close> is true.\<close>

definition py_and :: "pyexn + bool \<Rightarrow> pyexn + bool \<Rightarrow> pyexn + bool" where
  "py_and a b = py_bind a (\<lambda>x. if x then b else Inr False)"

text \<open>\<^verbatim>\<open>a or b\<close> on comparisons: \<open>b\<close> is evaluated only when \<open>a\<close> is false.\<close>

definition py_or :: "pyexn + bool \<Rightarrow> pyexn + bool \<Rightarrow> pyexn + bool" where
  "py_or a b = py_bind a (\<lambda>x. if x then Inr True else b)"

text \<open>The values Python treats as numbers; \<^verbatim>\<open>True\<close> is 1 and \<^verbatim>\<open>False\<close> is 0.\<close>

fun py_number :: "json \<Rightarrow> rat option" where
  "py_number (JNum r) = Some r"
| "py_number (JBool b) = Some (if b then 1 else 0)"
| "py_number v = None"

text \<open>\<^verbatim>\<open>abs(v)\<close>: \<^verbatim>\<open>TypeError\<close> on \<^verbatim>\<open>None\<close>, \<^verbatim>\<open>str\<close>, \<^verbatim>\<open>list\<close> and \<^verbatim>\<open>dict\<close>.\<close>

definition py_abs :: "json \<Rightarrow> pyexn + rat" where
  "py_abs v = (case py_number v of Some r \<Rightarrow> Inr \<bar>r\<bar> | None \<Rightarrow> Inl TypeError)"

text \<open>\<^verbatim>\<open>v > c\<close> and \<^verbatim>\<open>v < c\<close> against a numeric literal \<open>c\<close>.\<close>

definition py_gt :: "json \<Rightarrow> rat \<Rightarrow> pyexn + bool" where
  "py_gt v c = (case py_number v of Some r \<Rightarrow> Inr (c < r) | None \<Rightarrow> Inl TypeError)"

definition py_lt :: "json \<Rightarrow> rat \<Rightarrow> pyexn + bool" where
  "py_lt v c = (case py_number v of Some r \<Rightarrow> Inr (r < c) | None \<Rightarrow> Inl TypeError)"

text \<open>Truthiness, as \<^verbatim>\<open>if v:\<close> and \<^verbatim>\<open>not v\<close> see it.\<close>

fun py_truthy :: "json \<Rightarrow> bool" where
  "py_truthy JNull = False"
| "py_truthy (JBool b) = b"
| "py_truthy (JNum r) = (r \<noteq> 0)"
| "py_truthy (JStr s) = (s \<noteq> [])"
| "py_truthy (JArr xs) = (xs \<noteq> [])"
| "py_truthy (JObj kvs) = (kvs \<noteq> [])"

text \<open>\<^verbatim>\<open>d.get(k, default)\<close>: only a \<^verbatim>\<open>dict\<close> has the method.\<close>

fun py_get :: "json \<Rightarrow> string \<Rightarrow> json \<Rightarrow> pyexn + json" where
  "py_get (JObj kvs) k dflt = Inr (case map_of kvs k of Some v \<Rightarrow> v | None \<Rightarrow> dflt)"
| "py_get v k dflt = Inl AttributeError"

text \<open>
  \<^verbatim>\<open>d[k]\<close> with a string key: the value or \<^verbatim>\<open>KeyError\<close> on a \<^verbatim>\<open>dict\<close>; every other
  value refuses a string subscript with \<^verbatim>\<open>TypeError\<close>.
\<close>

fun py_item :: "json \<Rightarrow> string \<Rightarrow> pyexn + json" where
  "py_item (JObj kvs) k = (case map_of kvs k of Some v \<Rightarrow> Inr v | None \<Rightarrow> Inl KeyError)"
| "py_item v k = Inl TypeError"

text \<open>
  The first code point of a UTF-8 string: its lead byte and the continuation bytes
  (\<open>0x80\<close> to \<open>0xBF\<close>) after it.
\<close>

definition first_char :: "string \<Rightarrow> string" where
  "first_char s = (case s of [] \<Rightarrow> []
     | c # cs \<Rightarrow> c # takeWhile (\<lambda>d. 128 \<le> (of_char d :: nat) \<and> (of_char d :: nat) < 192) cs)"

text \<open>
  \<^verbatim>\<open>v[0]\<close>: the first element of a \<^verbatim>\<open>list\<close> or the first character of a \<^verbatim>\<open>str\<close>,
  \<^verbatim>\<open>IndexError\<close> when that is empty; \<^verbatim>\<open>KeyError\<close> on a \<^verbatim>\<open>dict\<close> (its keys are strings);
  \<^verbatim>\<open>TypeError\<close> on \<^verbatim>\<open>None\<close>, \<^verbatim>\<open>bool\<close> and numbers.
\<close>

fun py_index0 :: "json \<Rightarrow> pyexn + json" where
  "py_index0 (JArr xs) = (case xs of [] \<Rightarrow> Inl IndexError | x # _ \<Rightarrow> Inr x)"
| "py_index0 (JStr s) = (if s = [] then Inl IndexError else Inr (JStr (first_char s)))"
| "py_index0 (JObj kvs) = Inl KeyError"
| "py_index0 v = Inl TypeError"

text \<open>\<^verbatim>\<open>needle in hay\<close> on two strings is the contiguous-substring test.\<close>

definition py_in_str :: "string \<Rightarrow> string \<Rightarrow> bool" where
  "py_in_str needle hay = sublist needle hay"

text \<open>
  \<^verbatim>\<open>"key" in v\<close>: key membership on a \<^verbatim>\<open>dict\<close>, element membership on a \<^verbatim>\<open>list\<close>,
  substring on a \<^verbatim>\<open>str\<close>, \<^verbatim>\<open>TypeError\<close> on values that are not iterable.
\<close>

fun py_contains :: "string \<Rightarrow> json \<Rightarrow> pyexn + bool" where
  "py_contains k (JObj kvs) = Inr (k \<in> fst ` set kvs)"
| "py_contains k (JArr xs) = Inr (JStr k \<in> set xs)"
| "py_contains k (JStr s) = Inr (py_in_str k s)"
| "py_contains k v = Inl TypeError"

text \<open>\<^verbatim>\<open>len(v)\<close>: defined on \<^verbatim>\<open>list\<close>, \<^verbatim>\<open>dict\<close> and \<^verbatim>\<open>str\<close> (counted in code points).\<close>

fun py_len :: "json \<Rightarrow> pyexn + nat" where
  "py_len (JArr xs) = Inr (length xs)"
| "py_len (JObj kvs) = Inr (length kvs)"
| "py_len (JStr s) =
     Inr (length (filter (\<lambda>d. \<not> (128 \<le> (of_char d :: nat) \<and> (of_char d :: nat) < 192)) s))"
| "py_len v = Inl TypeError"

text \<open>
  \<^verbatim>\<open>str.lower()\<close> on the ASCII letters. (Outside ASCII, Python's lowering yields no
  letter of "rainforest" or "monsoon" next to its neighbour, so the substring tests of
  \<open>predict_soil_characteristics\<close> see the same answer.)
\<close>

definition lower_char :: "char \<Rightarrow> char" where
  "lower_char c =
     (case map_of (zip ''ABCDEFGHIJKLMNOPQRSTUVWXYZ'' ''abcdefghijklmnopqrstuvwxyz'') c of
        Some d \<Rightarrow> d | None \<Rightarrow> c)"

definition py_lower :: "string \<Rightarrow> string" where
  "py_lower s = map lower_char s"

text \<open>\<^verbatim>\<open>sep.join(xs)\<close> on a list of strings.\<close>

fun py_join :: "string \<Rightarrow> string list \<Rightarrow> string" where
  "py_join sep [] = []"
| "py_join sep [x] = x"
| "py_join sep (x # y # ys) = x @ sep @ py_join sep (y # ys)"

section \<open>Utility functions\<close>

subsection \<open>\<^verbatim>\<open>interpret_weather_code\<close> (lines 9-20)\<close>

definition weather_codes :: "(int \<times> string) list" where
  "weather_codes =
    [(0, ''Clear sky''), (1, ''Mainly clear''), (2, ''Partly cloudy''), (3, ''Overcast''),
     (45, ''Foggy''), (48, ''Depositing rime fog''), (51, ''Light drizzle''),
     (53, ''Moderate drizzle''),
     (55, ''Dense drizzle''), (61, ''Slight rain''), (63, ''Moderate rain''),
     (65, ''Heavy rain''),
     (71, ''Slight snow''), (73, ''Moderate snow''), (75, ''Heavy snow''), (77, ''Snow grains''),
     (80, ''Slight rain showers''), (81, ''Moderate rain showers''),
     (82, ''Violent rain showers''),
     (85, ''Slight snow showers''), (86, ''Heavy snow showers''),
     (95, ''Thunderstorm''), (96, ''Thunderstorm with slight hail''),
     (99, ''Thunderstorm with heavy hail'')]"

text \<open>
  The key of an \<^verbatim>\<open>int\<close>-keyed \<^verbatim>\<open>dict\<close> that a value hits: a number hits the integer it
  equals (\<^verbatim>\<open>61.0\<close> and \<^verbatim>\<open>61\<close> hash and compare alike, \<^verbatim>\<open>True\<close> is \<^verbatim>\<open>1\<close>), \<^verbatim>\<open>None\<close> and
  strings hit nothing, and \<^verbatim>\<open>list\<close> and \<^verbatim>\<open>dict\<close> are unhashable: \<^verbatim>\<open>TypeError\<close>.
\<close>

fun py_int_key :: "json \<Rightarrow> pyexn + int option" where
  "py_int_key (JArr xs) = Inl TypeError"
| "py_int_key (JObj kvs) = Inl TypeError"
| "py_int_key v =
     Inr (case py_number v of
            Some r \<Rightarrow> if of_int \<lfloor>r\<rfloor> = r then Some \<lfloor>r\<rfloor> else None
          | None \<Rightarrow> None)"

definition interpret_weather_code :: "json \<Rightarrow> pyexn + string" where
  "interpret_weather_code code =
     py_bind (py_int_key code) (\<lambda>key.
       Inr (case (case key of Some n \<Rightarrow> map_of weather_codes n | None \<Rightarrow> None) of
              Some label \<Rightarrow> label
            | None \<Rightarrow> ''Unknown''))"

subsection \<open>\<^verbatim>\<open>get_climate_zone\<close> (lines 22-45)\<close>

definition get_climate_zone :: "json \<Rightarrow> json \<Rightarrow> json \<Rightarrow> pyexn + string" where
  "get_climate_zone lat temp precip =
     py_bind (py_abs lat) (\<lambda>a.
       if \<not> (a \<le> 23.5 \<or> a \<le> 35 \<or> a \<le> 66) then Inr ''polar''
       else
         let zone_prefix =
               (if a \<le> 23.5 then ''tropical''
                else if a \<le> 35 then ''subtropical''
                else ''temperate'')
         in
           if zone_prefix = ''tropical'' then
             py_bind (py_and (py_gt temp 25) (py_gt precip 60)) (\<lambda>hot_and_wet.
               if hot_and_wet then Inr ''tropical rainforest''
               else
                 py_bind (py_gt temp 25) (\<lambda>hot.
                   if hot then Inr ''tropical savanna'' else Inr zone_prefix))
           else if zone_prefix = ''subtropical'' then
             py_bind (py_gt precip 20) (\<lambda>wet.
               if wet then Inr ''subtropical monsoon'' else Inr zone_prefix)
           else Inr zone_prefix)"

subsection \<open>\<^verbatim>\<open>predict_soil_characteristics\<close> (lines 48-92)\<close>

text \<open>The dictionary the function returns, with its five keys as fields.\<close>

record soil =
  soil_type :: string
  fertility :: string
  erosion :: string
  crops :: "string list"
  soil_notes :: string

definition lateritic_soil :: soil where
  "lateritic_soil =
     \<lparr>soil_type = ''Lateritic Soil'',
      fertility = ''Medium (prone to leaching)'',
      erosion = ''High'',
      crops = [''Rice'', ''Tropical Fruits'', ''Coffee'', ''Rubber''],
      soil_notes = ''Rich in iron oxides; needs careful erosion control and organic matter.''\<rparr>"

definition red_yellow_soil :: soil where
  "red_yellow_soil =
     \<lparr>soil_type = ''Red and Yellow Soil'',
      fertility = ''Medium'',
      erosion = ''Medium to High'',
      crops = [''Maize'', ''Millet'', ''Cotton'', ''Pulses''],
      soil_notes = ''Seasonal rainfall dependent; deep ploughing helps water retention.''\<rparr>"

definition subtropical_soil :: soil where
  "subtropical_soil =
     \<lparr>soil_type = ''Subtropical Loam/Alluvial Soil'',
      fertility = ''High'',
      erosion = ''Low to Medium'',
      crops = [''Citrus fruits'', ''Wheat'', ''Vegetables'', ''Olives'', ''Grapes''],
      soil_notes = ''Very versatile soil; careful water management is key, especially during dry spells.''\<rparr>"

definition brown_earth_soil :: soil where
  "brown_earth_soil =
     \<lparr>soil_type = ''Brown Earth/Forest Soil'',
      fertility = ''High'',
      erosion = ''Low'',
      crops = [''Wheat'', ''Corn'', ''Soybeans'', ''Root crops'', ''Barley''],
      soil_notes = ''Well-suited for extensive farming; lime may be needed to adjust pH.''\<rparr>"

definition tundra_soil :: soil where
  "tundra_soil =
     \<lparr>soil_type = ''Tundra Soil'',
      fertility = ''Low'',
      erosion = ''Medium'',
      crops = [''Hardy vegetables (e.g., kale)'', ''Short-season berries''],
      soil_notes = ''Limited growing season; focus on raised beds and protecting from permafrost.''\<rparr>"

definition predict_soil_characteristics :: "json \<Rightarrow> string \<Rightarrow> pyexn + soil" where
  "predict_soil_characteristics lat climate_zone =
     (let climate_zone_lower = py_lower climate_zone in
      py_bind (py_abs lat) (\<lambda>a.
        if a \<le> 23.5 then
          (if py_in_str ''rainforest'' climate_zone_lower
              \<or> py_in_str ''monsoon'' climate_zone_lower
           then Inr lateritic_soil
           else Inr red_yellow_soil)
        else if a \<le> 35 then Inr subtropical_soil
        else if a \<le> 66 then Inr brown_earth_soil
        else Inr tundra_soil))"

section \<open>The agent\<close>

subsection \<open>The outside world\<close>

text \<open>
  What one HTTP exchange (\<^verbatim>\<open>requests.get\<close>, \<^verbatim>\<open>raise_for_status\<close>, \<^verbatim>\<open>response.json\<close>)
  comes to: an exception with its cause, or the decoded body.
\<close>

datatype http_result = HttpFail string | HttpOk json

text \<open>
  The two services, and Python's \<^verbatim>\<open>str()\<close> of a value that is not a string (the
  f-strings of \<open>get_coordinates\<close> format whatever the response holds), are parameters.
\<close>

record env =
  geocoding_api :: "string \<Rightarrow> http_result"
  weather_api :: "json \<Rightarrow> json \<Rightarrow> http_result"
  str_of :: "json \<Rightarrow> string"

definition py_format :: "env \<Rightarrow> json \<Rightarrow> string" where
  "py_format env v = (case v of JStr s \<Rightarrow> s | _ \<Rightarrow> str_of env v)"

text \<open>What the two \<^verbatim>\<open>except\<close> blocks print, with the exception they caught.\<close>

datatype event = GeocodingError pyexn | WeatherAPIError pyexn

subsection \<open>\<^verbatim>\<open>get_coordinates\<close> (lines 103-137)\<close>

text \<open>The body of the \<^verbatim>\<open>try\<close> block (lines 106-133).\<close>

definition get_coordinates_try :: "env \<Rightarrow> string \<Rightarrow> pyexn + (json \<times> json \<times> string) option" where
  "get_coordinates_try env location =
     (case geocoding_api env location of
        HttpFail cause \<Rightarrow> Inl (RequestException cause)
      | HttpOk data \<Rightarrow>
          py_bind (py_and (py_contains ''results'' data)
                     (py_bind (py_bind (py_item data ''results'') py_len) (\<lambda>n. Inr (0 < n))))
          (\<lambda>found.
            if found then
              py_bind (py_bind (py_item data ''results'') py_index0) (\<lambda>result.
              py_bind (py_item result ''latitude'') (\<lambda>lat.
              py_bind (py_item result ''longitude'') (\<lambda>lon.
              py_bind (py_item result ''name'') (\<lambda>name.
              py_bind (py_get result ''country'' (JStr [])) (\<lambda>country.
              py_bind (py_get result ''admin1'' (JStr [])) (\<lambda>admin1.
                let full_name = py_format env name;
                    full_name = (if py_truthy admin1
                                 then full_name @ '', '' @ py_format env admin1
                                 else full_name);
                    full_name = (if py_truthy country
                                 then full_name @ '', '' @ py_format env country
                                 else full_name)
                in Inr (Some (lat, lon, full_name))))))))
            else Inr None))"

text \<open>
  The whole method: any exception of the body is printed and turned into \<^verbatim>\<open>None\<close>.
  The first component is what was printed.
\<close>

definition get_coordinates :: "env \<Rightarrow> string \<Rightarrow> event list \<times> (json \<times> json \<times> string) option" where
  "get_coordinates env location =
     (case get_coordinates_try env location of
        Inl e \<Rightarrow> ([GeocodingError e], None)
      | Inr r \<Rightarrow> ([], r))"

subsection \<open>\<^verbatim>\<open>fetch_combined_data\<close> (lines 139-160)\<close>

definition fetch_combined_data :: "env \<Rightarrow> json \<Rightarrow> json \<Rightarrow> event list \<times> json option" where
  "fetch_combined_data env latitude longitude =
     (case weather_api env latitude longitude of
        HttpFail cause \<Rightarrow> ([WeatherAPIError (RequestException cause)], None)
      | HttpOk data \<Rightarrow> ([], Some data))"

subsection \<open>\<^verbatim>\<open>generate_advice\<close> (lines 162-205)\<close>

definition newline :: string where
  "newline = [CHR 0x0A]"

definition soil_type_sentence :: "soil \<Rightarrow> string" where
  "soil_type_sentence soil = ''Soil Type: This location features **'' @ soil_type soil @ ''**.''"

definition erosion_sentence :: string where
  "erosion_sentence =
     [CHR 0xE2, CHR 0x9A, CHR 0xA0, CHR 0xEF, CHR 0xB8, CHR 0x8F] @
     '' **Erosion Risk:** The high erosion risk means you should implement terrace farming or heavy mulching immediately.''"

definition heat_sentence :: string where
  "heat_sentence =
     [CHR 0xF0, CHR 0x9F, CHR 0x8C, CHR 0xA1, CHR 0xEF, CHR 0xB8, CHR 0x8F] @
     '' **Heat Alert:** Current high temperatures require increased **irrigation frequency** to prevent crop dehydration.''"

definition cool_sentence :: string where
  "cool_sentence =
     [CHR 0xF0, CHR 0x9F, CHR 0xA5, CHR 0xB6] @
     '' **Cool Weather:** Consider protecting vulnerable crops from cold shock, possibly using temporary covers.''"

definition rainfall_sentence :: string where
  "rainfall_sentence =
     [CHR 0xE2, CHR 0x98, CHR 0x94] @
     '' **Rainfall:** Due to current rain, postpone any major field work (ploughing, spraying) for at least 24 hours to prevent soil compaction.''"

definition wind_sentence :: string where
  "wind_sentence =
     [CHR 0xF0, CHR 0x9F, CHR 0x8C, CHR 0xAC, CHR 0xEF, CHR 0xB8, CHR 0x8F] @
     '' **Wind Warning:** Strong winds could cause lodging. Ensure taller crops are adequately staked or sheltered.''"

definition best_crop_sentence :: "soil \<Rightarrow> string" where
  "best_crop_sentence soil =
     (let best_crops = py_join '', '' (crops soil) in
      newline @ [CHR 0xF0, CHR 0x9F, CHR 0x8C, CHR 0xB1] @
      '' **Best Crop Strategy:** The most suitable crops are: **'' @ best_crops @ ''**.'')"

definition fertility_sentence :: "soil \<Rightarrow> string" where
  "fertility_sentence soil =
     ''Fertility: The soil has **'' @ fertility soil @
     ''** fertility. Supplement with organic compost before planting the next cycle.''"

definition stable_sentence :: string where
  "stable_sentence = ''Conditions are stable. Proceed with routine maintenance and monitoring.''"

text \<open>The test of line 175.\<close>

definition erosion_warning :: "soil \<Rightarrow> bool" where
  "erosion_warning soil \<longleftrightarrow> py_in_str ''Lateritic Soil'' (soil_type soil) \<or> erosion soil = ''High''"

text \<open>
  \<^verbatim>\<open>code in [61, 63, 65, 80, 81, 82]\<close>: the list is searched with \<^verbatim>\<open>==\<close>, which never
  raises and holds between numbers of equal value only.
\<close>

definition rain_code :: "json \<Rightarrow> bool" where
  "rain_code code =
     (case py_number code of Some r \<Rightarrow> r \<in> set [61, 63, 65, 80, 81, 82] | None \<Rightarrow> False)"

text \<open>The list \<^verbatim>\<open>advice\<close> as it stands when line 205 joins it.\<close>

definition advice_sentences :: "json \<Rightarrow> soil \<Rightarrow> pyexn + string list" where
  "advice_sentences weather soil =
     (let advice = [];
          advice = advice @ [soil_type_sentence soil];
          advice = (if erosion_warning soil then advice @ [erosion_sentence] else advice)
      in
      py_bind (py_get weather ''current'' (JObj [])) (\<lambda>current.
      py_bind (py_get current ''temperature_2m'' (JNum 0)) (\<lambda>temp.
      py_bind (py_get current ''precipitation'' (JNum 0)) (\<lambda>precip.
      py_bind (py_get current ''wind_speed_10m'' (JNum 0)) (\<lambda>wind.
      py_bind (py_get current ''weather_code'' (JNum 0)) (\<lambda>code.
      py_bind (interpret_weather_code code) (\<lambda>condition.
      py_bind (py_gt temp 30) (\<lambda>hot.
      py_bind (if hot then Inr (advice @ [heat_sentence])
               else py_bind (py_lt temp 10) (\<lambda>cold.
                      Inr (if cold then advice @ [cool_sentence] else advice))) (\<lambda>advice.
      py_bind (py_or (py_gt precip 0) (Inr (rain_code code))) (\<lambda>rainy.
      py_bind (py_gt wind 30) (\<lambda>windy.
        let advice = (if rainy then advice @ [rainfall_sentence] else advice);
            advice = (if windy then advice @ [wind_sentence] else advice);
            advice = advice @ [best_crop_sentence soil];
            advice = advice @ [fertility_sentence soil];
            advice = (if advice = [] then advice @ [stable_sentence] else advice)
        in Inr advice)))))))))))"

definition generate_advice :: "json \<Rightarrow> soil \<Rightarrow> pyexn + string" where
  "generate_advice weather soil =
     py_bind (advice_sentences weather soil) (\<lambda>advice. Inr (py_join newline advice))"

subsection \<open>\<^verbatim>\<open>get_agricultural_recommendation\<close> (lines 207-259)\<close>

record weather_summary =
  w_temperature :: json
  w_humidity :: json
  w_precipitation :: json
  w_wind_speed :: json
  w_condition :: string
  w_climate_zone :: string

record report =
  rep_location :: string
  rep_latitude :: json
  rep_longitude :: json
  rep_weather :: weather_summary
  rep_soil :: soil
  rep_advice :: string

text \<open>What the method returns: the dictionary with the key \<^verbatim>\<open>"error"\<close>, or the report.\<close>

datatype result = ErrorResult string | Report report

text \<open>
  \<^verbatim>\<open>daily.get(key, [0])[0] if daily else 0\<close> (lines 226 and 227): the subscript is
  evaluated only when \<^verbatim>\<open>daily\<close> is truthy.
\<close>

definition daily_first :: "json \<Rightarrow> string \<Rightarrow> pyexn + json" where
  "daily_first daily key =
     (if py_truthy daily then py_bind (py_get daily key (JArr [JNum 0])) py_index0
      else Inr (JNum 0))"

text \<open>Steps 3 to 7 (lines 223-259), on a weather response that passed line 220.\<close>

definition compile_report :: "json \<Rightarrow> json \<Rightarrow> string \<Rightarrow> json \<Rightarrow> pyexn + report" where
  "compile_report lat lon location_name raw_weather_data =
     py_bind (py_get raw_weather_data ''current'' (JObj [])) (\<lambda>current.
     py_bind (py_get raw_weather_data ''daily'' (JObj [])) (\<lambda>daily.
     py_bind (daily_first daily ''temperature_2m_max'') (\<lambda>temp_max_daily.
     py_bind (daily_first daily ''precipitation_sum'') (\<lambda>precip_sum_daily.
     py_bind (get_climate_zone lat temp_max_daily precip_sum_daily) (\<lambda>climate_zone.
     py_bind (predict_soil_characteristics lat climate_zone) (\<lambda>soil_info.
     py_bind (py_get current ''temperature_2m'' (JStr ''N/A'')) (\<lambda>temperature.
     py_bind (py_get current ''relative_humidity_2m'' (JStr ''N/A'')) (\<lambda>humidity.
     py_bind (py_get current ''precipitation'' (JNum 0)) (\<lambda>precipitation.
     py_bind (py_get current ''wind_speed_10m'' (JStr ''N/A'')) (\<lambda>wind_speed.
     py_bind (py_get current ''weather_code'' (JNum 0)) (\<lambda>weather_code.
     py_bind (interpret_weather_code weather_code) (\<lambda>condition.
     py_bind (generate_advice raw_weather_data soil_info) (\<lambda>final_advice.
       Inr \<lparr>rep_location = location_name,
            rep_latitude = lat,
            rep_longitude = lon,
            rep_weather =
              \<lparr>w_temperature = temperature,
               w_humidity = humidity,
               w_precipitation = precipitation,
               w_wind_speed = wind_speed,
               w_condition = condition,
               w_climate_zone = climate_zone\<rparr>,
            rep_soil = soil_info,
            rep_advice = final_advice\<rparr>)))))))))))))"

text \<open>
  The whole method. The first component is what the two clients printed; the second is
  the exception that leaves the method, or what it returns.
\<close>

definition get_agricultural_recommendation :: "env \<Rightarrow> string \<Rightarrow> event list \<times> (pyexn + result)" where
  "get_agricultural_recommendation env location =
     (case get_coordinates env location of
        (out1, None) \<Rightarrow> (out1, Inr (ErrorResult (''Could not find location: '' @ location)))
      | (out1, Some (lat, lon, location_name)) \<Rightarrow>
          (case fetch_combined_data env lat lon of
             (out2, None) \<Rightarrow> (out1 @ out2, Inr (ErrorResult ''Could not fetch weather data''))
           | (out2, Some raw_weather_data) \<Rightarrow>
               if \<not> py_truthy raw_weather_data
               then (out1 @ out2, Inr (ErrorResult ''Could not fetch weather data''))
               else (out1 @ out2,
                     py_bind (compile_report lat lon location_name raw_weather_data)
                       (\<lambda>r. Inr (Report r)))))"

section \<open>The rule list of the specification\<close>

text \<open>
  The composer as the specification words it (section 4.6, rules 1 to 7): each rule
  contributes no sentence or one, in this order, on a snapshot of four numbers. It is
  compared below with \<open>advice_sentences\<close>, which follows the source.
\<close>

definition rule_sentences :: "soil \<Rightarrow> rat \<Rightarrow> rat \<Rightarrow> rat \<Rightarrow> rat \<Rightarrow> string list" where
  "rule_sentences soil temp precip wind code =
     [soil_type_sentence soil]
     @ (if py_in_str ''Lateritic Soil'' (soil_type soil) \<or> erosion soil = ''High''
        then [erosion_sentence] else [])
     @ (if 30 < temp then [heat_sentence] else if temp < 10 then [cool_sentence] else [])
     @ (if 0 < precip \<or> code \<in> {61, 63, 65, 80, 81, 82} then [rainfall_sentence] else [])
     @ (if 30 < wind then [wind_sentence] else [])
     @ [best_crop_sentence soil]
     @ [fertility_sentence soil]"

section \<open>Sample exchanges\<close>

text \<open>
  A world in which each service gives one fixed answer whatever it is asked, for the
  concrete runs below. \<open>str_of\<close> is never consulted on them: every formatted value is
  a string.
\<close>

definition sample_env :: "http_result \<Rightarrow> http_result \<Rightarrow> env" where
  "sample_env geocoding weather =
     \<lparr>geocoding_api = (\<lambda>location. geocoding),
      weather_api = (\<lambda>latitude longitude. weather),
      str_of = (\<lambda>v. [])\<rparr>"

text \<open>The geocoding service's answer for Pune, and its answer when nothing matches.\<close>

definition pune_found :: json where
  "pune_found =
     JObj [(''results'',
            JArr [JObj [(''name'', JStr ''Pune''), (''latitude'', JNum 18.52),
                        (''longitude'', JNum 73.86), (''country'', JStr ''India''),
                        (''admin1'', JStr ''Maharashtra'')]]),
           (''generationtime_ms'', JNum 0.5)]"

definition nothing_found :: json where
  "nothing_found = JObj [(''generationtime_ms'', JNum 0.5)]"

text \<open>A weather answer whose daily series are present and empty.\<close>

definition empty_daily_weather :: json where
  "empty_daily_weather =
     JObj [(''current'', JObj [(''temperature_2m'', JNum 28), (''weather_code'', JNum 1)]),
           (''daily'', JObj [(''temperature_2m_max'', JArr []),
                             (''precipitation_sum'', JArr [])])]"

text \<open>A weather answer whose current block holds the precipitation only.\<close>

definition sparse_current_weather :: json where
  "sparse_current_weather =
     JObj [(''current'', JObj [(''precipitation'', JNum 2)]),
           (''daily'', JObj [(''temperature_2m_max'', JArr [JNum 31]),
                             (''precipitation_sum'', JArr [JNum 2])])]"

section \<open>Properties\<close>

subsection \<open>Evaluation rules of the primitives\<close>

lemma py_bind_simps [simp]:
  "py_bind (Inl e) f = Inl e"
  "py_bind (Inr a) f = f a"
  by (simp_all add: py_bind_def)

lemma py_abs_JNum [simp]: "py_abs (JNum r) = Inr \<bar>r\<bar>"
  by (simp add: py_abs_def)

lemma py_gt_JNum [simp]: "py_gt (JNum r) c = Inr (c < r)"
  by (simp add: py_gt_def)

lemma py_lt_JNum [simp]: "py_lt (JNum r) c = Inr (r < c)"
  by (simp add: py_lt_def)

subsection \<open>Climate classification\<close>

lemma get_climate_zone_numeric:
  "get_climate_zone (JNum lat) (JNum temp) (JNum precip) =
     Inr (if 66 < \<bar>lat\<bar> then ''polar''
          else if \<bar>lat\<bar> \<le> 23.5 then
            (if 25 < temp \<and> 60 < precip then ''tropical rainforest''
             else if 25 < temp then ''tropical savanna''
             else ''tropical'')
          else if \<bar>lat\<bar> \<le> 35 then
            (if 20 < precip then ''subtropical monsoon'' else ''subtropical'')
          else ''temperate'')"
  by (simp add: get_climate_zone_def py_and_def)

lemma get_climate_zone_polar:
  "66 < \<bar>lat\<bar> \<Longrightarrow> get_climate_zone (JNum lat) temp precip = Inr ''polar''"
  by (simp add: get_climate_zone_def)

lemma get_climate_zone_subtropical:
  "23.5 < \<bar>lat\<bar> \<Longrightarrow> \<bar>lat\<bar> \<le> 35 \<Longrightarrow>
   get_climate_zone (JNum lat) temp (JNum precip) =
     Inr (if 20 < precip then ''subtropical monsoon'' else ''subtropical'')"
  by (simp add: get_climate_zone_def)

text \<open>
  C4. On every latitude, temperature and precipitation the classifier follows the ordered
  algorithm: beyond 66 degrees \<open>polar\<close>; in the tropical band \<open>tropical rainforest\<close> when
  the temperature is above 25 and the precipitation above 60, \<open>tropical savanna\<close> when
  only the temperature is above 25, else \<open>tropical\<close>; in the subtropical band
  \<open>subtropical monsoon\<close> when the precipitation is above 20, else \<open>subtropical\<close>;
  otherwise \<open>temperate\<close>. Beyond 66 degrees the answer is \<open>polar\<close> whatever the two
  weather arguments are (\<open>t\<close> and \<open>p\<close> are any values, numbers or not), and at
  latitude 30 the temperature \<open>t\<close> is never looked at. The five examples of the
  specification are instances.
\<close>

theorem get_climate_zone_algorithm:
  "get_climate_zone (JNum lat) (JNum temp) (JNum precip) =
     Inr (if 66 < \<bar>lat\<bar> then ''polar''
          else if \<bar>lat\<bar> \<le> 23.5 then
            (if 25 < temp \<and> 60 < precip then ''tropical rainforest''
             else if 25 < temp then ''tropical savanna''
             else ''tropical'')
          else if \<bar>lat\<bar> \<le> 35 then
            (if 20 < precip then ''subtropical monsoon'' else ''subtropical'')
          else ''temperate'')
   \<and> (66 < \<bar>lat\<bar> \<longrightarrow> get_climate_zone (JNum lat) t p = Inr ''polar'')
   \<and> get_climate_zone (JNum 20) (JNum 30) (JNum 70) = Inr ''tropical rainforest''
   \<and> get_climate_zone (JNum 20) (JNum 30) (JNum 10) = Inr ''tropical savanna''
   \<and> get_climate_zone (JNum 20) (JNum 10) (JNum 10) = Inr ''tropical''
   \<and> get_climate_zone (JNum 30) t (JNum 25) = Inr ''subtropical monsoon''
   \<and> get_climate_zone (JNum 30) t (JNum 5) = Inr ''subtropical''"
  using get_climate_zone_numeric [of lat temp precip] get_climate_zone_polar [of lat t p]
    get_climate_zone_numeric [of 20 30 70] get_climate_zone_numeric [of 20 30 10]
    get_climate_zone_numeric [of 20 10 10]
    get_climate_zone_subtropical [of 30 t 25] get_climate_zone_subtropical [of 30 t 5]
  by simp

theorem get_climate_zone_algorithm_witness:
  "(66::rat) < \<bar>- 70\<bar>
   \<and> get_climate_zone (JNum (- 70)) (JStr ''hot'') JNull = Inr ''polar''
   \<and> get_climate_zone (JNum (- 70)) (JNum 40) (JNum 100) = Inr ''polar''"
  using get_climate_zone_algorithm [of "- 70" 40 100 "JStr ''hot''" JNull]
  by simp

subsection \<open>Weather codes\<close>

lemma interpret_weather_code_int:
  "interpret_weather_code (JNum (of_int n)) =
     Inr (case map_of weather_codes n of Some label \<Rightarrow> label | None \<Rightarrow> ''Unknown'')"
  by (simp add: interpret_weather_code_def)

lemma distinct_weather_codes: "distinct (map fst weather_codes)"
  by (simp add: weather_codes_def)

text \<open>
  C6. The label function is total on the integers: on every integer \<open>n\<close> it returns a
  label and never raises; every entry of the table returns its own label (the keys of the
  table are distinct, so none is shadowed); every integer that is not a key, that is every
  integer outside the 24 listed codes, returns \<open>Unknown\<close>. In particular the label of 61
  is \<open>Slight rain\<close> and the label of 9999 is \<open>Unknown\<close>. The function is a pure
  lookup: it has no effect to model.
\<close>

theorem interpret_weather_code_total:
  "(\<exists>label. interpret_weather_code (JNum (of_int n)) = Inr label)
   \<and> (\<forall>(k, label) \<in> set weather_codes.
         interpret_weather_code (JNum (of_int k)) = Inr label)
   \<and> (n \<notin> fst ` set weather_codes \<longrightarrow>
         interpret_weather_code (JNum (of_int n)) = Inr ''Unknown'')
   \<and> (n \<notin> {0, 1, 2, 3, 45, 48, 51, 53, 55, 61, 63, 65, 71, 73, 75, 77, 80, 81, 82,
             85, 86, 95, 96, 99} \<longrightarrow>
         interpret_weather_code (JNum (of_int n)) = Inr ''Unknown'')
   \<and> interpret_weather_code (JNum 61) = Inr ''Slight rain''
   \<and> interpret_weather_code (JNum 9999) = Inr ''Unknown''"
proof -
  have total: "\<exists>label. interpret_weather_code (JNum (of_int n)) = Inr label"
    by (simp add: interpret_weather_code_int)
  have table: "\<forall>(k, label) \<in> set weather_codes.
      interpret_weather_code (JNum (of_int k)) = Inr label"
    using distinct_weather_codes by (auto simp: interpret_weather_code_int)
  have other: "n \<notin> fst ` set weather_codes \<longrightarrow>
      interpret_weather_code (JNum (of_int n)) = Inr ''Unknown''"
    by (auto simp: interpret_weather_code_int map_of_eq_None_iff [symmetric]
        split: option.splits)
  have keys: "fst ` set weather_codes =
      {0, 1, 2, 3, 45, 48, 51, 53, 55, 61, 63, 65, 71, 73, 75, 77, 80, 81, 82,
       85, 86, 95, 96, 99}"
    by (simp add: weather_codes_def)
  have e61: "interpret_weather_code (JNum 61) = Inr ''Slight rain''"
    using interpret_weather_code_int [of 61] by (simp add: weather_codes_def)
  have e9999: "interpret_weather_code (JNum 9999) = Inr ''Unknown''"
    using interpret_weather_code_int [of 9999] by (simp add: weather_codes_def)
  from total table other keys e61 e9999 show ?thesis by simp
qed

theorem interpret_weather_code_total_witness:
  "(3, ''Overcast'') \<in> set weather_codes
   \<and> interpret_weather_code (JNum 3) = Inr ''Overcast''
   \<and> (4::int) \<notin> fst ` set weather_codes
   \<and> interpret_weather_code (JNum 4) = Inr ''Unknown''"
proof -
  have m: "(3, ''Overcast'') \<in> set weather_codes" by (simp add: weather_codes_def)
  have n: "(4::int) \<notin> fst ` set weather_codes" by (simp add: weather_codes_def)
  from interpret_weather_code_total [of 4] m n show ?thesis by auto
qed

subsection \<open>Soil lookup\<close>

lemma soil_profiles_distinct:
  "lateritic_soil \<noteq> red_yellow_soil" "lateritic_soil \<noteq> subtropical_soil"
  "lateritic_soil \<noteq> brown_earth_soil" "lateritic_soil \<noteq> tundra_soil"
  "red_yellow_soil \<noteq> subtropical_soil" "red_yellow_soil \<noteq> brown_earth_soil"
  "red_yellow_soil \<noteq> tundra_soil" "subtropical_soil \<noteq> brown_earth_soil"
  "subtropical_soil \<noteq> tundra_soil" "brown_earth_soil \<noteq> tundra_soil"
  by (simp_all add: lateritic_soil_def red_yellow_soil_def subtropical_soil_def
      brown_earth_soil_def tundra_soil_def)

lemma predict_soil_characteristics_numeric:
  "predict_soil_characteristics (JNum lat) zone =
     Inr (if \<bar>lat\<bar> \<le> 23.5 then
            (if py_in_str ''rainforest'' (py_lower zone) \<or> py_in_str ''monsoon'' (py_lower zone)
             then lateritic_soil else red_yellow_soil)
          else if \<bar>lat\<bar> \<le> 35 then subtropical_soil
          else if \<bar>lat\<bar> \<le> 66 then brown_earth_soil
          else tundra_soil)"
  by (simp add: predict_soil_characteristics_def)

text \<open>
  C3. On every latitude and every zone label the soil lookup returns one of the five
  fixed profiles, and which one follows the policy: the Lateritic profile exactly when
  the latitude is within 23.5 degrees and the lowercased label contains \<open>rainforest\<close> or
  \<open>monsoon\<close>; the Red and Yellow profile exactly when the latitude is within 23.5
  degrees otherwise; the Subtropical Loam/Alluvial profile exactly between 23.5 and 35
  degrees, whatever the label; the Brown Earth/Forest profile exactly between 35 and 66
  degrees; the Tundra profile exactly beyond 66 degrees.
\<close>

theorem predict_soil_characteristics_policy:
  "\<exists>p. predict_soil_characteristics (JNum lat) zone = Inr p
     \<and> p \<in> {lateritic_soil, red_yellow_soil, subtropical_soil, brown_earth_soil, tundra_soil}
     \<and> (p = lateritic_soil \<longleftrightarrow>
          \<bar>lat\<bar> \<le> 23.5 \<and> (py_in_str ''rainforest'' (py_lower zone)
                            \<or> py_in_str ''monsoon'' (py_lower zone)))
     \<and> (p = red_yellow_soil \<longleftrightarrow>
          \<bar>lat\<bar> \<le> 23.5 \<and> \<not> (py_in_str ''rainforest'' (py_lower zone)
                              \<or> py_in_str ''monsoon'' (py_lower zone)))
     \<and> (p = subtropical_soil \<longleftrightarrow> 23.5 < \<bar>lat\<bar> \<and> \<bar>lat\<bar> \<le> 35)
     \<and> (p = brown_earth_soil \<longleftrightarrow> 35 < \<bar>lat\<bar> \<and> \<bar>lat\<bar> \<le> 66)
     \<and> (p = tundra_soil \<longleftrightarrow> 66 < \<bar>lat\<bar>)"
  using soil_profiles_distinct
  by (auto simp: predict_soil_characteristics_numeric)

theorem predict_soil_characteristics_policy_witness:
  "predict_soil_characteristics (JNum 10) ''tropical rainforest'' = Inr lateritic_soil
   \<and> predict_soil_characteristics (JNum 10) ''tropical savanna'' = Inr red_yellow_soil
   \<and> py_in_str ''monsoon'' (py_lower ''subtropical monsoon'')
   \<and> predict_soil_characteristics (JNum 30) ''subtropical monsoon'' = Inr subtropical_soil"
proof -
  have a: "py_in_str ''rainforest'' (py_lower ''tropical rainforest'')"
    by (simp add: py_lower_def lower_char_def py_in_str_def sublist_code(3))
  have b: "\<not> (py_in_str ''rainforest'' (py_lower ''tropical savanna'')
            \<or> py_in_str ''monsoon'' (py_lower ''tropical savanna''))"
    by (simp add: py_lower_def lower_char_def py_in_str_def sublist_code(3))
  have c: "py_in_str ''monsoon'' (py_lower ''subtropical monsoon'')"
    by (simp add: py_lower_def lower_char_def py_in_str_def sublist_code(3))
  from predict_soil_characteristics_policy [of 10 "''tropical rainforest''"]
    predict_soil_characteristics_policy [of 10 "''tropical savanna''"]
    predict_soil_characteristics_policy [of 30 "''subtropical monsoon''"]
    a b c show ?thesis by auto
qed

subsection \<open>The advisory sentences\<close>

lemma sentences_distinct:
  "heat_sentence \<noteq> cool_sentence" "heat_sentence \<noteq> rainfall_sentence"
  "heat_sentence \<noteq> wind_sentence" "heat_sentence \<noteq> erosion_sentence"
  "cool_sentence \<noteq> rainfall_sentence" "cool_sentence \<noteq> wind_sentence"
  "cool_sentence \<noteq> erosion_sentence" "rainfall_sentence \<noteq> wind_sentence"
  "rainfall_sentence \<noteq> erosion_sentence" "wind_sentence \<noteq> erosion_sentence"
  by (simp_all add: heat_sentence_def cool_sentence_def rainfall_sentence_def
      wind_sentence_def erosion_sentence_def)

lemma conditional_not_unconditional:
  "x \<in> {erosion_sentence, heat_sentence, cool_sentence, rainfall_sentence, wind_sentence,
         stable_sentence} \<Longrightarrow>
   x \<noteq> soil_type_sentence soil \<and> x \<noteq> best_crop_sentence soil \<and> x \<noteq> fertility_sentence soil"
  by (auto simp: heat_sentence_def cool_sentence_def rainfall_sentence_def
      wind_sentence_def erosion_sentence_def stable_sentence_def soil_type_sentence_def
      best_crop_sentence_def fertility_sentence_def newline_def)

lemma stable_not_conditional:
  "stable_sentence \<notin> {erosion_sentence, heat_sentence, cool_sentence, rainfall_sentence,
      wind_sentence}"
  by (simp add: heat_sentence_def cool_sentence_def rainfall_sentence_def
      wind_sentence_def erosion_sentence_def stable_sentence_def)

lemma interpret_weather_code_number:
  "py_number v = Some r \<Longrightarrow> \<exists>label. interpret_weather_code v = Inr label"
  by (cases v) (simp_all add: interpret_weather_code_def)

lemma py_gt_number: "py_number v = Some r \<Longrightarrow> py_gt v c = Inr (c < r)"
  by (simp add: py_gt_def)

lemma py_lt_number: "py_number v = Some r \<Longrightarrow> py_lt v c = Inr (r < c)"
  by (simp add: py_lt_def)

lemma advice_sentences_numeric:
  assumes "py_get weather ''current'' (JObj []) = Inr current"
    and "py_get current ''temperature_2m'' (JNum 0) = Inr temp" "py_number temp = Some t"
    and "py_get current ''precipitation'' (JNum 0) = Inr precip" "py_number precip = Some p"
    and "py_get current ''wind_speed_10m'' (JNum 0) = Inr wind" "py_number wind = Some w"
    and "py_get current ''weather_code'' (JNum 0) = Inr code" "py_number code = Some c"
  shows "advice_sentences weather soil = Inr (rule_sentences soil t p w c)"
proof -
  obtain label where "interpret_weather_code code = Inr label"
    using interpret_weather_code_number [OF assms(9)] by blast
  then show ?thesis
    using assms
    by (simp add: advice_sentences_def rule_sentences_def py_gt_number py_lt_number py_or_def
        rain_code_def erosion_warning_def)
qed

lemma advice_sentences_shape:
  assumes "advice_sentences weather soil = Inr ls"
  shows "\<exists>mid. ls = soil_type_sentence soil
              # (if erosion_warning soil then [erosion_sentence] else [])
              @ mid @ [best_crop_sentence soil, fertility_sentence soil]
     \<and> set mid \<subseteq> {heat_sentence, cool_sentence, rainfall_sentence, wind_sentence}"
proof (rule exI [where x = "butlast (butlast (drop (if erosion_warning soil then 2 else 1) ls))"])
  show "ls = soil_type_sentence soil
              # (if erosion_warning soil then [erosion_sentence] else [])
              @ butlast (butlast (drop (if erosion_warning soil then 2 else 1) ls))
              @ [best_crop_sentence soil, fertility_sentence soil]
     \<and> set (butlast (butlast (drop (if erosion_warning soil then 2 else 1) ls)))
         \<subseteq> {heat_sentence, cool_sentence, rainfall_sentence, wind_sentence}"
    using assms
    by (auto simp: advice_sentences_def py_bind_def py_or_def Let_def
        split: sum.splits if_splits)
qed

lemma advice_sentences_members:
  assumes "advice_sentences weather soil = Inr ls"
  shows "soil_type_sentence soil \<in> set ls" "best_crop_sentence soil \<in> set ls"
    "fertility_sentence soil \<in> set ls" "ls \<noteq> []" "stable_sentence \<notin> set ls"
    "erosion_sentence \<in> set ls \<longleftrightarrow> erosion_warning soil"
proof -
  obtain mid where ls: "ls = soil_type_sentence soil
              # (if erosion_warning soil then [erosion_sentence] else [])
              @ mid @ [best_crop_sentence soil, fertility_sentence soil]"
    and mid: "set mid \<subseteq> {heat_sentence, cool_sentence, rainfall_sentence, wind_sentence}"
    using advice_sentences_shape [OF assms] by blast
  show "soil_type_sentence soil \<in> set ls" "best_crop_sentence soil \<in> set ls"
    "fertility_sentence soil \<in> set ls" "ls \<noteq> []"
    by (simp_all add: ls)
  show "stable_sentence \<notin> set ls"
    using mid stable_not_conditional conditional_not_unconditional [of stable_sentence soil]
    by (auto simp: ls)
  show "erosion_sentence \<in> set ls \<longleftrightarrow> erosion_warning soil"
    using mid sentences_distinct conditional_not_unconditional [of erosion_sentence soil]
    by (auto simp: ls)
qed

lemma advice_sentences_temperature:
  assumes "py_get weather ''current'' (JObj []) = Inr current"
    and "py_get current ''temperature_2m'' (JNum 0) = Inr temp" "py_number temp = Some t"
    and "advice_sentences weather soil = Inr ls"
  shows "heat_sentence \<in> set ls \<longleftrightarrow> 30 < t" "cool_sentence \<in> set ls \<longleftrightarrow> t < 10"
  using assms(4) sentences_distinct
    conditional_not_unconditional [of heat_sentence soil]
    conditional_not_unconditional [of cool_sentence soil]
  by (auto simp: advice_sentences_def assms(1,2) py_gt_number [OF assms(3)]
      py_lt_number [OF assms(3)] py_bind_def py_or_def Let_def
      split: sum.splits if_splits)

lemma rule_sentences_set:
  "set (rule_sentences soil t p w c) =
     {soil_type_sentence soil, best_crop_sentence soil, fertility_sentence soil}
     \<union> (if erosion_warning soil then {erosion_sentence} else {})
     \<union> (if 30 < t then {heat_sentence} else if t < 10 then {cool_sentence} else {})
     \<union> (if 0 < p \<or> c \<in> {61, 63, 65, 80, 81, 82} then {rainfall_sentence} else {})
     \<union> (if 30 < w then {wind_sentence} else {})"
  by (auto simp: rule_sentences_def erosion_warning_def)

lemma rule_sentences_members:
  "heat_sentence \<in> set (rule_sentences soil t p w c) \<longleftrightarrow> 30 < t"
  "cool_sentence \<in> set (rule_sentences soil t p w c) \<longleftrightarrow> t < 10 \<and> \<not> 30 < t"
  "rainfall_sentence \<in> set (rule_sentences soil t p w c) \<longleftrightarrow> 0 < p \<or> c \<in> {61, 63, 65, 80, 81, 82}"
  "wind_sentence \<in> set (rule_sentences soil t p w c) \<longleftrightarrow> 30 < w"
  using sentences_distinct
    conditional_not_unconditional [of heat_sentence soil]
    conditional_not_unconditional [of cool_sentence soil]
    conditional_not_unconditional [of rainfall_sentence soil]
    conditional_not_unconditional [of wind_sentence soil]
  by (auto simp: rule_sentences_set split: if_splits)

text \<open>
  C5. On every soil profile and every weather dictionary whose four current readings are
  numbers (a reading that is absent counts as 0), the composer returns the sentences of
  rules 1 to 7 in that order, joined with newlines; the best-crop sentence itself begins
  with a newline, which gives the empty line before it. The heat sentence is there
  exactly when the temperature is above 30, the cold sentence exactly when it is below
  10, never both, and neither between 10 and 30 inclusive; the rainfall sentence exactly
  when the precipitation is positive or the weather code is one of 61, 63, 65, 80, 81,
  82; the wind sentence exactly when the wind speed is above 30.
\<close>

theorem generate_advice_rule_order:
  assumes "py_get weather ''current'' (JObj []) = Inr current"
    and "py_get current ''temperature_2m'' (JNum 0) = Inr temp" "py_number temp = Some t"
    and "py_get current ''precipitation'' (JNum 0) = Inr precip" "py_number precip = Some p"
    and "py_get current ''wind_speed_10m'' (JNum 0) = Inr wind" "py_number wind = Some w"
    and "py_get current ''weather_code'' (JNum 0) = Inr code" "py_number code = Some c"
  shows "\<exists>ls. advice_sentences weather soil = Inr ls
     \<and> ls = rule_sentences soil t p w c
     \<and> generate_advice weather soil = Inr (py_join newline ls)
     \<and> take 1 (best_crop_sentence soil) = newline
     \<and> (heat_sentence \<in> set ls \<longleftrightarrow> 30 < t)
     \<and> (cool_sentence \<in> set ls \<longleftrightarrow> t < 10)
     \<and> \<not> (heat_sentence \<in> set ls \<and> cool_sentence \<in> set ls)
     \<and> (10 \<le> t \<and> t \<le> 30 \<longrightarrow> heat_sentence \<notin> set ls \<and> cool_sentence \<notin> set ls)
     \<and> (rainfall_sentence \<in> set ls \<longleftrightarrow> 0 < p \<or> c \<in> {61, 63, 65, 80, 81, 82})
     \<and> (wind_sentence \<in> set ls \<longleftrightarrow> 30 < w)"
proof -
  have ls: "advice_sentences weather soil = Inr (rule_sentences soil t p w c)"
    using assms by (rule advice_sentences_numeric)
  have joined: "generate_advice weather soil = Inr (py_join newline (rule_sentences soil t p w c))"
    by (simp add: generate_advice_def ls)
  have blank: "take 1 (best_crop_sentence soil) = newline"
    by (simp add: best_crop_sentence_def newline_def)
  show ?thesis
    using ls joined blank rule_sentences_members [of soil t p w c] by auto
qed

text \<open>
  The two examples of the specification: 35 degrees, no rain, wind 10 on a profile of
  low erosion gives the heat alert and no cold, rainfall or wind sentence; 5 degrees
  with weather code 65 gives both the cold and the rainfall sentence.
\<close>

theorem generate_advice_rule_order_witness:
  "advice_sentences
     (JObj [(''current'', JObj [(''temperature_2m'', JNum 35), (''precipitation'', JNum 0),
                               (''wind_speed_10m'', JNum 10)])])
     brown_earth_soil
   = Inr [soil_type_sentence brown_earth_soil, heat_sentence,
          best_crop_sentence brown_earth_soil, fertility_sentence brown_earth_soil]
   \<and> erosion brown_earth_soil = ''Low''
   \<and> advice_sentences
     (JObj [(''current'', JObj [(''temperature_2m'', JNum 5), (''weather_code'', JNum 65)])])
     brown_earth_soil
   = Inr [soil_type_sentence brown_earth_soil, cool_sentence, rainfall_sentence,
          best_crop_sentence brown_earth_soil, fertility_sentence brown_earth_soil]"
proof -
  have e: "\<not> erosion_warning brown_earth_soil" "erosion brown_earth_soil = ''Low''"
    by (simp_all add: erosion_warning_def brown_earth_soil_def py_in_str_def sublist_code(3))
  have a: "advice_sentences
     (JObj [(''current'', JObj [(''temperature_2m'', JNum 35), (''precipitation'', JNum 0),
                               (''wind_speed_10m'', JNum 10)])])
     brown_earth_soil = Inr (rule_sentences brown_earth_soil 35 0 10 0)"
    using generate_advice_rule_order
      [of "JObj [(''current'', JObj [(''temperature_2m'', JNum 35), (''precipitation'', JNum 0),
                               (''wind_speed_10m'', JNum 10)])]"
          "JObj [(''temperature_2m'', JNum 35), (''precipitation'', JNum 0),
                               (''wind_speed_10m'', JNum 10)]"
          "JNum 35" 35 "JNum 0" 0 "JNum 10" 10 "JNum 0" 0 brown_earth_soil]
    by simp
  have b: "advice_sentences
     (JObj [(''current'', JObj [(''temperature_2m'', JNum 5), (''weather_code'', JNum 65)])])
     brown_earth_soil = Inr (rule_sentences brown_earth_soil 5 0 0 65)"
    using generate_advice_rule_order
      [of "JObj [(''current'', JObj [(''temperature_2m'', JNum 5), (''weather_code'', JNum 65)])]"
          "JObj [(''temperature_2m'', JNum 5), (''weather_code'', JNum 65)]"
          "JNum 5" 5 "JNum 0" 0 "JNum 0" 0 "JNum 65" 65 brown_earth_soil]
    by simp
  show ?thesis
    using a b e by (simp add: rule_sentences_def erosion_warning_def)
qed

subsection \<open>Joined text\<close>

lemma sublist_py_join: "x \<in> set xs \<Longrightarrow> sublist x (py_join sep xs)"
proof (induction sep xs rule: py_join.induct)
  case (1 sep)
  then show ?case by simp
next
  case (2 sep y)
  then show ?case by simp
next
  case (3 sep y z zs)
  show ?case
  proof (cases "x = y")
    case True
    then show ?thesis by (simp add: sublist_append)
  next
    case False
    with 3 have "sublist x (py_join sep (z # zs))" by simp
    then show ?thesis by (simp add: sublist_append)
  qed
qed

lemma sublist_py_join_piece:
  assumes "c \<notin> set needle" "needle \<noteq> []"
  shows "sublist needle (py_join [c] xs) \<Longrightarrow> \<exists>x \<in> set xs. sublist needle x"
proof (induction "[c]" xs rule: py_join.induct)
  case 1
  with assms show ?case by simp
next
  case (2 y)
  then show ?case by simp
next
  case (3 y z zs)
  from 3(2) have "sublist needle (y @ c # py_join [c] (z # zs))" by simp
  then consider "sublist needle y" | "sublist needle (c # py_join [c] (z # zs))"
    | n1 n2 where "needle = n1 @ n2" "suffix n1 y" "prefix n2 (c # py_join [c] (z # zs))"
    unfolding sublist_append by blast
  then show ?case
  proof cases
    case 1
    then show ?thesis by auto
  next
    case 2
    then have "prefix needle (c # py_join [c] (z # zs)) \<or> sublist needle (py_join [c] (z # zs))"
      by (simp add: sublist_Cons_right)
    moreover have "\<not> prefix needle (c # py_join [c] (z # zs))"
      using assms by (cases needle) auto
    ultimately show ?thesis using 3(1) by auto
  next
    case 3
    have "n2 = []"
    proof (cases n2)
      case Nil then show ?thesis .
    next
      case (Cons a as)
      with 3(3) have "a = c" by simp
      with Cons 3(1) assms(1) show ?thesis by simp
    qed
    with 3 have "suffix needle y" by simp
    then show ?thesis by (auto dest: suffix_imp_sublist)
  qed
qed

lemma stable_not_in_conditional:
  "\<not> sublist stable_sentence erosion_sentence" "\<not> sublist stable_sentence heat_sentence"
  "\<not> sublist stable_sentence cool_sentence" "\<not> sublist stable_sentence rainfall_sentence"
  "\<not> sublist stable_sentence wind_sentence"
  by (simp_all add: stable_sentence_def erosion_sentence_def heat_sentence_def
      cool_sentence_def rainfall_sentence_def wind_sentence_def sublist_code(3))

lemma stable_not_in_profile_sentences:
  assumes "soil \<in> {lateritic_soil, red_yellow_soil, subtropical_soil, brown_earth_soil, tundra_soil}"
  shows "\<not> sublist stable_sentence (soil_type_sentence soil)"
    "\<not> sublist stable_sentence (best_crop_sentence soil)"
    "\<not> sublist stable_sentence (fertility_sentence soil)"
  using assms
  by (auto simp: stable_sentence_def soil_type_sentence_def best_crop_sentence_def
      fertility_sentence_def newline_def lateritic_soil_def red_yellow_soil_def
      subtropical_soil_def brown_earth_soil_def tundra_soil_def sublist_code(3))

lemma newline_not_in_stable: "CHR 0x0A \<notin> set stable_sentence" "stable_sentence \<noteq> []"
  by (simp_all add: stable_sentence_def)

text \<open>
  C7. Whenever the composer returns (on any weather value and any soil record), the
  soil-type, best-crop and fertility sentences are among the sentences emitted and occur
  in the joined text, so the list is not empty when line 202 tests it and the
  "stable conditions" sentence of rule 8 is not emitted. On the five profiles of the
  soil lookup the text of that sentence does not occur anywhere in the output either.
\<close>

theorem stable_sentence_unreachable:
  assumes "advice_sentences weather soil = Inr ls"
  shows "generate_advice weather soil = Inr (py_join newline ls)
     \<and> soil_type_sentence soil \<in> set ls
     \<and> best_crop_sentence soil \<in> set ls
     \<and> fertility_sentence soil \<in> set ls
     \<and> py_in_str (soil_type_sentence soil) (py_join newline ls)
     \<and> py_in_str (best_crop_sentence soil) (py_join newline ls)
     \<and> py_in_str (fertility_sentence soil) (py_join newline ls)
     \<and> ls \<noteq> []
     \<and> stable_sentence \<notin> set ls
     \<and> (soil \<in> {lateritic_soil, red_yellow_soil, subtropical_soil, brown_earth_soil,
                  tundra_soil}
          \<longrightarrow> \<not> py_in_str stable_sentence (py_join newline ls))"
proof -
  note m = advice_sentences_members [OF assms]
  have out: "generate_advice weather soil = Inr (py_join newline ls)"
    by (simp add: generate_advice_def assms)
  have sub: "py_in_str (soil_type_sentence soil) (py_join newline ls)"
    "py_in_str (best_crop_sentence soil) (py_join newline ls)"
    "py_in_str (fertility_sentence soil) (py_join newline ls)"
    unfolding py_in_str_def using m(1-3) by (simp_all add: sublist_py_join)
  have "\<not> py_in_str stable_sentence (py_join newline ls)"
    if five: "soil \<in> {lateritic_soil, red_yellow_soil, subtropical_soil, brown_earth_soil,
                  tundra_soil}"
  proof
    assume "py_in_str stable_sentence (py_join newline ls)"
    then have "sublist stable_sentence (py_join [CHR 0x0A] ls)"
      by (simp add: py_in_str_def newline_def)
    then obtain x where x: "x \<in> set ls" "sublist stable_sentence x"
      using sublist_py_join_piece [OF newline_not_in_stable] by blast
    obtain mid where ls: "ls = soil_type_sentence soil
              # (if erosion_warning soil then [erosion_sentence] else [])
              @ mid @ [best_crop_sentence soil, fertility_sentence soil]"
      and mid: "set mid \<subseteq> {heat_sentence, cool_sentence, rainfall_sentence, wind_sentence}"
      using advice_sentences_shape [OF assms] by blast
    from x(1) mid have "x \<in> {soil_type_sentence soil, best_crop_sentence soil,
        fertility_sentence soil, erosion_sentence, heat_sentence, cool_sentence,
        rainfall_sentence, wind_sentence}"
      by (auto simp: ls split: if_splits)
    with x(2) stable_not_in_conditional stable_not_in_profile_sentences [OF five]
    show False by auto
  qed
  with out m sub show ?thesis by simp
qed

theorem stable_sentence_unreachable_witness:
  "advice_sentences (JObj []) tundra_soil
     = Inr [soil_type_sentence tundra_soil, cool_sentence,
            best_crop_sentence tundra_soil, fertility_sentence tundra_soil]
   \<and> stable_sentence \<notin> set [soil_type_sentence tundra_soil, cool_sentence,
            best_crop_sentence tundra_soil, fertility_sentence tundra_soil]
   \<and> \<not> py_in_str stable_sentence
         (py_join newline [soil_type_sentence tundra_soil, cool_sentence,
            best_crop_sentence tundra_soil, fertility_sentence tundra_soil])"
proof -
  have a: "advice_sentences (JObj []) tundra_soil
     = Inr [soil_type_sentence tundra_soil, cool_sentence,
            best_crop_sentence tundra_soil, fertility_sentence tundra_soil]"
    by (simp add: advice_sentences_def erosion_warning_def tundra_soil_def py_in_str_def
        sublist_code(3) interpret_weather_code_def py_or_def rain_code_def)
  from stable_sentence_unreachable [OF a] show ?thesis using a by simp
qed

subsection \<open>Erosion warning\<close>

lemma predict_soil_characteristics_cases:
  assumes "predict_soil_characteristics lat zone = Inr p"
  shows "p \<in> {lateritic_soil, red_yellow_soil, subtropical_soil, brown_earth_soil, tundra_soil}"
  using assms
  by (auto simp: predict_soil_characteristics_def py_abs_def py_bind_def Let_def
      split: option.splits if_splits)

lemma erosion_warning_profiles:
  "erosion_warning lateritic_soil" "\<not> erosion_warning red_yellow_soil"
  "\<not> erosion_warning subtropical_soil" "\<not> erosion_warning brown_earth_soil"
  "\<not> erosion_warning tundra_soil"
  by (simp_all add: erosion_warning_def lateritic_soil_def red_yellow_soil_def
      subtropical_soil_def brown_earth_soil_def tundra_soil_def py_in_str_def sublist_code(3))

text \<open>
  C10. On every profile that the soil lookup returns, the erosion test of the composer
  (\<open>Lateritic Soil\<close> occurs in the soil type, or the erosion descriptor is exactly
  \<open>High\<close>) holds exactly when the profile is the Lateritic one, and so the erosion
  warning is among the sentences exactly then. In particular the descriptor
  \<open>Medium to High\<close> of the Red and Yellow profile does not trigger it.
\<close>

theorem erosion_warning_iff_lateritic:
  assumes "predict_soil_characteristics lat zone = Inr p"
  shows "(erosion_warning p \<longleftrightarrow> p = lateritic_soil)
     \<and> (\<forall>weather ls. advice_sentences weather p = Inr ls \<longrightarrow>
           (erosion_sentence \<in> set ls \<longleftrightarrow> p = lateritic_soil))
     \<and> erosion red_yellow_soil = ''Medium to High''
     \<and> \<not> erosion_warning red_yellow_soil"
proof -
  have iff: "erosion_warning p \<longleftrightarrow> p = lateritic_soil"
    using predict_soil_characteristics_cases [OF assms] erosion_warning_profiles
      soil_profiles_distinct
    by auto
  have "erosion_sentence \<in> set ls \<longleftrightarrow> p = lateritic_soil"
    if "advice_sentences weather p = Inr ls" for weather ls
    using advice_sentences_members(6) [OF that] iff by simp
  moreover have "erosion red_yellow_soil = ''Medium to High''"
    by (simp add: red_yellow_soil_def)
  ultimately show ?thesis using iff erosion_warning_profiles(2) by blast
qed

theorem erosion_warning_iff_lateritic_witness:
  "predict_soil_characteristics (JNum 10) ''tropical savanna'' = Inr red_yellow_soil
   \<and> \<not> erosion_warning red_yellow_soil
   \<and> advice_sentences (JObj []) red_yellow_soil
       = Inr [soil_type_sentence red_yellow_soil, cool_sentence,
              best_crop_sentence red_yellow_soil, fertility_sentence red_yellow_soil]
   \<and> erosion_sentence \<notin> set [soil_type_sentence red_yellow_soil, cool_sentence,
              best_crop_sentence red_yellow_soil, fertility_sentence red_yellow_soil]
   \<and> predict_soil_characteristics (JNum 10) ''tropical rainforest'' = Inr lateritic_soil
   \<and> erosion_warning lateritic_soil"
proof -
  have a: "predict_soil_characteristics (JNum 10) ''tropical savanna'' = Inr red_yellow_soil"
    by (simp add: predict_soil_characteristics_def py_lower_def lower_char_def py_in_str_def
        sublist_code(3))
  have b: "predict_soil_characteristics (JNum 10) ''tropical rainforest'' = Inr lateritic_soil"
    by (simp add: predict_soil_characteristics_def py_lower_def lower_char_def py_in_str_def
        sublist_code(3))
  have c: "advice_sentences (JObj []) red_yellow_soil
       = Inr [soil_type_sentence red_yellow_soil, cool_sentence,
              best_crop_sentence red_yellow_soil, fertility_sentence red_yellow_soil]"
    by (simp add: advice_sentences_def erosion_warning_def red_yellow_soil_def py_in_str_def
        sublist_code(3) interpret_weather_code_def py_or_def rain_code_def)
  from erosion_warning_iff_lateritic [OF a] erosion_warning_iff_lateritic [OF b]
    a b c soil_profiles_distinct(1)
  show ?thesis by metis
qed

subsection \<open>Missing current readings\<close>

text \<open>
  A current block that lacks \<open>temperature_2m\<close> only: its precipitation of 5 is read,
  not replaced by 0, and the rainfall sentence is emitted beside the cold one.
\<close>

theorem missing_temperature_counterexample:
  "map_of [(''precipitation'', JNum 5)] ''temperature_2m'' = None
   \<and> advice_sentences (JObj [(''current'', JObj [(''precipitation'', JNum 5)])]) tundra_soil
       = Inr [soil_type_sentence tundra_soil, cool_sentence, rainfall_sentence,
              best_crop_sentence tundra_soil, fertility_sentence tundra_soil]"
  by (simp add: advice_sentences_def erosion_warning_def tundra_soil_def py_in_str_def
      sublist_code(3) interpret_weather_code_def py_or_def rain_code_def)

text \<open>
  C8 (amended). On every weather dictionary without the key \<open>current\<close> the composer
  reads temperature, precipitation, wind speed and weather code as 0: it returns the rule
  list of the snapshot (0, 0, 0, 0), which holds the cold sentence and none of the heat,
  rainfall and wind sentences. On a weather dictionary whose current block lacks
  \<open>temperature_2m\<close>, the temperature alone is read as 0: whenever the composer returns,
  the cold sentence is emitted and the heat sentence is not; when the other three
  readings are numbers, the rainfall and wind sentences follow them.
\<close>

theorem missing_current_advice:
  "(map_of kvs ''current'' = None \<longrightarrow>
      advice_sentences (JObj kvs) soil = Inr (rule_sentences soil 0 0 0 0)
      \<and> cool_sentence \<in> set (rule_sentences soil 0 0 0 0)
      \<and> heat_sentence \<notin> set (rule_sentences soil 0 0 0 0)
      \<and> rainfall_sentence \<notin> set (rule_sentences soil 0 0 0 0)
      \<and> wind_sentence \<notin> set (rule_sentences soil 0 0 0 0))
   \<and> (map_of kvs ''current'' = Some (JObj cur) \<and> map_of cur ''temperature_2m'' = None
        \<and> advice_sentences (JObj kvs) soil = Inr ls \<longrightarrow>
      cool_sentence \<in> set ls \<and> heat_sentence \<notin> set ls)
   \<and> (map_of kvs ''current'' = Some (JObj cur) \<and> map_of cur ''temperature_2m'' = None
        \<and> py_get (JObj cur) ''precipitation'' (JNum 0) = Inr precip
        \<and> py_number precip = Some p
        \<and> py_get (JObj cur) ''wind_speed_10m'' (JNum 0) = Inr wind
        \<and> py_number wind = Some w
        \<and> py_get (JObj cur) ''weather_code'' (JNum 0) = Inr code
        \<and> py_number code = Some c \<longrightarrow>
      advice_sentences (JObj kvs) soil = Inr (rule_sentences soil 0 p w c)
      \<and> (rainfall_sentence \<in> set (rule_sentences soil 0 p w c)
            \<longleftrightarrow> 0 < p \<or> c \<in> {61, 63, 65, 80, 81, 82})
      \<and> (wind_sentence \<in> set (rule_sentences soil 0 p w c) \<longleftrightarrow> 30 < w))"
proof -
  have readings: "advice_sentences (JObj kvs) soil = Inr (rule_sentences soil 0 p w c)"
    if "map_of kvs ''current'' = Some (JObj cur)" "map_of cur ''temperature_2m'' = None"
      "py_get (JObj cur) ''precipitation'' (JNum 0) = Inr precip" "py_number precip = Some p"
      "py_get (JObj cur) ''wind_speed_10m'' (JNum 0) = Inr wind" "py_number wind = Some w"
      "py_get (JObj cur) ''weather_code'' (JNum 0) = Inr code" "py_number code = Some c"
    using that advice_sentences_numeric [where weather = "JObj kvs" and current = "JObj cur"
        and temp = "JNum 0" and t = 0 and precip = precip and p = p and wind = wind and w = w
        and code = code and c = c and soil = soil]
    by simp
  have absent: "advice_sentences (JObj kvs) soil = Inr (rule_sentences soil 0 0 0 0)"
    if "map_of kvs ''current'' = None"
    by (rule advice_sentences_numeric [where current = "JObj []" and temp = "JNum 0"
          and precip = "JNum 0" and wind = "JNum 0" and code = "JNum 0"])
      (simp_all add: that)
  have partial: "cool_sentence \<in> set ls \<and> heat_sentence \<notin> set ls"
    if "map_of kvs ''current'' = Some (JObj cur)" "map_of cur ''temperature_2m'' = None"
      "advice_sentences (JObj kvs) soil = Inr ls"
    using advice_sentences_temperature [of "JObj kvs" "JObj cur" "JNum 0" 0 soil ls] that
    by simp
  have zero: "cool_sentence \<in> set (rule_sentences soil 0 0 0 0)"
    "heat_sentence \<notin> set (rule_sentences soil 0 0 0 0)"
    "rainfall_sentence \<notin> set (rule_sentences soil 0 0 0 0)"
    "wind_sentence \<notin> set (rule_sentences soil 0 0 0 0)"
    by (simp_all add: rule_sentences_members)
  show ?thesis
    using absent partial readings zero rule_sentences_members(3,4) [of soil 0 p w c]
    by blast
qed

theorem missing_current_advice_witness:
  "map_of [(''daily'', JObj [])] ''current'' = None
   \<and> advice_sentences (JObj [(''daily'', JObj [])]) tundra_soil
       = Inr [soil_type_sentence tundra_soil, cool_sentence,
              best_crop_sentence tundra_soil, fertility_sentence tundra_soil]
   \<and> map_of [(''current'', JObj [(''precipitation'', JNum 5)])] ''current''
       = Some (JObj [(''precipitation'', JNum 5)])
   \<and> cool_sentence \<in> set [soil_type_sentence tundra_soil, cool_sentence, rainfall_sentence,
              best_crop_sentence tundra_soil, fertility_sentence tundra_soil]
   \<and> heat_sentence \<notin> set [soil_type_sentence tundra_soil, cool_sentence, rainfall_sentence,
              best_crop_sentence tundra_soil, fertility_sentence tundra_soil]"
proof -
  have e: "\<not> erosion_warning tundra_soil"
    by (simp add: erosion_warning_def tundra_soil_def py_in_str_def sublist_code(3))
  have a: "advice_sentences (JObj [(''current'', JObj [(''precipitation'', JNum 5)])]) tundra_soil
       = Inr [soil_type_sentence tundra_soil, cool_sentence, rainfall_sentence,
              best_crop_sentence tundra_soil, fertility_sentence tundra_soil]"
    using e by (simp add: advice_sentences_def interpret_weather_code_def py_or_def rain_code_def)
  from missing_current_advice [where kvs = "[(''daily'', JObj [])]" and soil = tundra_soil]
  have b: "advice_sentences (JObj [(''daily'', JObj [])]) tundra_soil
       = Inr [soil_type_sentence tundra_soil, cool_sentence,
              best_crop_sentence tundra_soil, fertility_sentence tundra_soil]"
    using e by (simp add: rule_sentences_def erosion_warning_def)
  from missing_current_advice [where kvs = "[(''current'', JObj [(''precipitation'', JNum 5)])]"
      and cur = "[(''precipitation'', JNum 5)]" and soil = tundra_soil
      and ls = "[soil_type_sentence tundra_soil, cool_sentence, rainfall_sentence,
              best_crop_sentence tundra_soil, fertility_sentence tundra_soil]"] a
  have c: "cool_sentence \<in> set [soil_type_sentence tundra_soil, cool_sentence, rainfall_sentence,
              best_crop_sentence tundra_soil, fertility_sentence tundra_soil]
      \<and> heat_sentence \<notin> set [soil_type_sentence tundra_soil, cool_sentence, rainfall_sentence,
              best_crop_sentence tundra_soil, fertility_sentence tundra_soil]"
    by simp
  from b c show ?thesis by simp
qed

subsection \<open>The pipeline\<close>

lemma sample_env_simps [simp]:
  "geocoding_api (sample_env geocoding weather) location = geocoding"
  "weather_api (sample_env geocoding weather) lat lon = weather"
  by (simp_all add: sample_env_def)

lemma get_coordinates_pune:
  "get_coordinates (sample_env (HttpOk pune_found) weather) ''Pune''
     = ([], Some (JNum 18.52, JNum 73.86, ''Pune, Maharashtra, India''))"
  by (simp add: get_coordinates_def get_coordinates_try_def pune_found_def
      py_and_def py_format_def)

lemma daily_first_empty:
  "map_of dkvs key = Some (JArr []) \<Longrightarrow> daily_first (JObj dkvs) key = Inl IndexError"
  by (auto simp: daily_first_def)

lemma daily_first_default:
  "daily_first (JObj []) key = Inr (JNum 0)"
  "map_of dkvs key = None \<Longrightarrow> daily_first (JObj dkvs) key = Inr (JNum 0)"
  by (simp_all add: daily_first_def)

lemma compile_report_empty_daily:
  assumes "map_of kvs ''daily'' = Some (JObj dkvs)"
    and "map_of dkvs ''temperature_2m_max'' = Some (JArr [])"
  shows "compile_report lat lon location_name (JObj kvs) = Inl IndexError"
  using assms by (simp add: compile_report_def daily_first_empty)

text \<open>
  C1. The specification asks that daily series which are absent or empty be read as 0
  without an error. Absent series are (\<open>daily_first_default\<close>), but a series that is
  present and empty is subscripted at line 226 and the pipeline leaves with
  \<^verbatim>\<open>IndexError\<close>: here on the answer \<open>empty_daily_weather\<close> for Pune.
\<close>

theorem empty_daily_series_raises:
  "get_agricultural_recommendation
     (sample_env (HttpOk pune_found) (HttpOk empty_daily_weather)) ''Pune''
   = ([], Inl IndexError)"
proof -
  have "compile_report (JNum 18.52) (JNum 73.86) ''Pune, Maharashtra, India''
      empty_daily_weather = Inl IndexError"
    unfolding empty_daily_weather_def
    by (rule compile_report_empty_daily
          [where dkvs = "[(''temperature_2m_max'', JArr []), (''precipitation_sum'', JArr [])]"])
      simp_all
  then show ?thesis
    by (simp add: get_agricultural_recommendation_def get_coordinates_pune
        fetch_combined_data_def empty_daily_weather_def)
qed

text \<open>
  An endpoint that finds nothing and a request that times out: \<open>get_coordinates\<close>
  returns \<^verbatim>\<open>None\<close> in both cases and the pipeline returns the same error result with the
  same message; only what was printed differs.
\<close>

theorem geocoding_failures_counterexample:
  "get_coordinates (sample_env (HttpOk nothing_found) (HttpOk JNull)) ''Atlantis''
     = ([], None)
   \<and> get_coordinates (sample_env (HttpFail ''timed out'') (HttpOk JNull)) ''Atlantis''
     = ([GeocodingError (RequestException ''timed out'')], None)
   \<and> snd (get_agricultural_recommendation
            (sample_env (HttpOk nothing_found) (HttpOk JNull)) ''Atlantis'')
     = Inr (ErrorResult ''Could not find location: Atlantis'')
   \<and> snd (get_agricultural_recommendation
            (sample_env (HttpFail ''timed out'') (HttpOk JNull)) ''Atlantis'')
     = Inr (ErrorResult ''Could not find location: Atlantis'')"
  by (simp add: get_agricultural_recommendation_def get_coordinates_def
      get_coordinates_try_def nothing_found_def py_and_def)

lemma get_coordinates_transport:
  "geocoding_api env location = HttpFail cause \<Longrightarrow>
   get_coordinates env location = ([GeocodingError (RequestException cause)], None)"
  by (simp add: get_coordinates_def get_coordinates_try_def)

lemma py_contains_absent:
  "map_of kvs k = None \<Longrightarrow> py_contains k (JObj kvs) = Inr False"
  by (simp add: map_of_eq_None_iff)

lemma py_contains_present:
  "map_of kvs k = Some v \<Longrightarrow> py_contains k (JObj kvs) = Inr True"
  by (auto dest: map_of_SomeD intro: image_eqI [where x = "(k, v)"])

lemma get_coordinates_no_results:
  assumes "geocoding_api env location = HttpOk (JObj kvs)"
    and "map_of kvs ''results'' = None \<or> map_of kvs ''results'' = Some (JArr [])"
  shows "get_coordinates env location = ([], None)"
  using assms
  by (auto simp: get_coordinates_def get_coordinates_try_def py_and_def
      py_contains_absent py_contains_present simp del: py_contains.simps)

lemma recommendation_not_found:
  assumes "snd (get_coordinates env location) = None"
  shows "get_agricultural_recommendation env location
     = (fst (get_coordinates env location),
        Inr (ErrorResult (''Could not find location: '' @ location)))"
  using assms
  by (cases "get_coordinates env location")
    (simp add: get_agricultural_recommendation_def)

text \<open>
  C2 (amended). The result of geocoding does not tell the two kinds of failure apart:
  on a transport or parsing failure \<open>get_coordinates\<close> prints the cause and returns
  \<^verbatim>\<open>None\<close>, and on an answer with no \<open>results\<close> or an empty \<open>results\<close> array it
  returns \<^verbatim>\<open>None\<close> as well. Whenever it returns \<^verbatim>\<open>None\<close> the pipeline does not raise
  and returns the one error result \<open>Could not find location:\<close> followed by the
  location.
\<close>

theorem geocoding_failures_same_result:
  "(geocoding_api env location = HttpFail cause \<longrightarrow>
      get_coordinates env location = ([GeocodingError (RequestException cause)], None))
   \<and> (geocoding_api env location = HttpOk (JObj kvs)
        \<and> (map_of kvs ''results'' = None \<or> map_of kvs ''results'' = Some (JArr [])) \<longrightarrow>
      get_coordinates env location = ([], None))
   \<and> (snd (get_coordinates env location) = None \<longrightarrow>
      get_agricultural_recommendation env location
        = (fst (get_coordinates env location),
           Inr (ErrorResult (''Could not find location: '' @ location))))"
  using get_coordinates_transport [of env location cause]
    get_coordinates_no_results [of env location kvs]
    recommendation_not_found [of env location]
  by blast

theorem geocoding_failures_same_result_witness:
  "geocoding_api (sample_env (HttpFail ''timed out'') (HttpOk JNull)) ''Atlantis''
     = HttpFail ''timed out''
   \<and> get_agricultural_recommendation
        (sample_env (HttpFail ''timed out'') (HttpOk JNull)) ''Atlantis''
     = ([GeocodingError (RequestException ''timed out'')],
        Inr (ErrorResult ''Could not find location: Atlantis''))
   \<and> geocoding_api (sample_env (HttpOk nothing_found) (HttpOk JNull)) ''Atlantis''
     = HttpOk nothing_found
   \<and> get_agricultural_recommendation
        (sample_env (HttpOk nothing_found) (HttpOk JNull)) ''Atlantis''
     = ([], Inr (ErrorResult ''Could not find location: Atlantis''))"
proof -
  have a: "geocoding_api (sample_env (HttpFail ''timed out'') (HttpOk JNull)) ''Atlantis''
     = HttpFail ''timed out''"
    by simp
  have b: "geocoding_api (sample_env (HttpOk nothing_found) (HttpOk JNull)) ''Atlantis''
     = HttpOk (JObj [(''generationtime_ms'', JNum 0.5)])"
    by (simp add: nothing_found_def)
  from geocoding_failures_same_result
    [where env = "sample_env (HttpFail ''timed out'') (HttpOk JNull)"
      and location = "''Atlantis''" and cause = "''timed out''"] a
  have c: "get_agricultural_recommendation
        (sample_env (HttpFail ''timed out'') (HttpOk JNull)) ''Atlantis''
     = ([GeocodingError (RequestException ''timed out'')],
        Inr (ErrorResult ''Could not find location: Atlantis''))"
    by simp
  from geocoding_failures_same_result
    [where env = "sample_env (HttpOk nothing_found) (HttpOk JNull)"
      and location = "''Atlantis''" and kvs = "[(''generationtime_ms'', JNum 0.5)]"] b
  have d: "get_agricultural_recommendation
        (sample_env (HttpOk nothing_found) (HttpOk JNull)) ''Atlantis''
     = ([], Inr (ErrorResult ''Could not find location: Atlantis''))"
    by simp
  from a b c d show ?thesis by (simp add: nothing_found_def)
qed

subsection \<open>The weather summary of the report\<close>

lemma compile_report_summary:
  assumes "compile_report lat lon location_name raw = Inr r"
    and "py_get raw ''current'' (JObj []) = Inr current"
  shows "Inr (w_temperature (rep_weather r)) = py_get current ''temperature_2m'' (JStr ''N/A'')"
    "Inr (w_humidity (rep_weather r)) = py_get current ''relative_humidity_2m'' (JStr ''N/A'')"
    "Inr (w_precipitation (rep_weather r)) = py_get current ''precipitation'' (JNum 0)"
    "Inr (w_wind_speed (rep_weather r)) = py_get current ''wind_speed_10m'' (JStr ''N/A'')"
    "\<exists>code. py_get current ''weather_code'' (JNum 0) = Inr code
       \<and> interpret_weather_code code = Inr (w_condition (rep_weather r))"
  using assms
  by (auto simp: compile_report_def py_bind_def split: sum.splits)

lemma interpret_weather_code_zero: "interpret_weather_code (JNum 0) = Inr ''Clear sky''"
  by (simp add: interpret_weather_code_def weather_codes_def)

lemma recommendation_report:
  assumes "get_agricultural_recommendation env location = (out, Inr (Report r))"
  shows "\<exists>out1 lat lon location_name raw.
      get_coordinates env location = (out1, Some (lat, lon, location_name))
      \<and> weather_api env lat lon = HttpOk raw
      \<and> compile_report lat lon location_name raw = Inr r"
  using assms
  by (auto simp: get_agricultural_recommendation_def fetch_combined_data_def py_bind_def
      split: prod.splits option.splits http_result.splits if_splits sum.splits)

text \<open>
  C9. Whenever the pipeline returns a report on a weather answer whose current block
  (the empty one when the answer has none) lacks \<open>weather_code\<close>, the code is read as
  0 and the reported condition is \<open>Clear sky\<close>, the label of code 0; a missing
  temperature, humidity or wind speed is reported as the string \<open>N/A\<close> and a missing
  precipitation as 0.
\<close>

theorem missing_weather_code_clear_sky:
  assumes "get_agricultural_recommendation env location = (out, Inr (Report r))"
    and "get_coordinates env location = (out1, Some (lat, lon, location_name))"
    and "weather_api env lat lon = HttpOk raw"
    and "py_get raw ''current'' (JObj []) = Inr (JObj cur)"
  shows "(map_of cur ''weather_code'' = None \<longrightarrow>
            w_condition (rep_weather r) = ''Clear sky'')
     \<and> (map_of cur ''temperature_2m'' = None \<longrightarrow>
            w_temperature (rep_weather r) = JStr ''N/A'')
     \<and> (map_of cur ''relative_humidity_2m'' = None \<longrightarrow>
            w_humidity (rep_weather r) = JStr ''N/A'')
     \<and> (map_of cur ''wind_speed_10m'' = None \<longrightarrow>
            w_wind_speed (rep_weather r) = JStr ''N/A'')
     \<and> (map_of cur ''precipitation'' = None \<longrightarrow>
            w_precipitation (rep_weather r) = JNum 0)"
proof -
  obtain out1' lat' lon' name' raw' where
    c: "get_coordinates env location = (out1', Some (lat', lon', name'))"
    and w: "weather_api env lat' lon' = HttpOk raw'"
    and rep: "compile_report lat' lon' name' raw' = Inr r"
    using recommendation_report [OF assms(1)] by blast
  from c assms(2) have "lat' = lat" "lon' = lon" by simp_all
  with w assms(3) have "raw' = raw" by simp
  with rep have rep': "compile_report lat' lon' name' raw = Inr r" by simp
  note s = compile_report_summary [OF rep' assms(4)]
  from s(5) obtain code where
    code: "py_get (JObj cur) ''weather_code'' (JNum 0) = Inr code"
      "interpret_weather_code code = Inr (w_condition (rep_weather r))"
    by blast
  have "w_condition (rep_weather r) = ''Clear sky''" if "map_of cur ''weather_code'' = None"
    using code that by (auto simp: interpret_weather_code_zero)
  with s(1-4) show ?thesis by simp
qed

lemma recommendation_sparse:
  "\<exists>r. get_agricultural_recommendation
       (sample_env (HttpOk pune_found) (HttpOk sparse_current_weather)) ''Pune''
     = ([], Inr (Report r))"
  by (simp add: get_agricultural_recommendation_def get_coordinates_pune
      fetch_combined_data_def sparse_current_weather_def compile_report_def daily_first_def
      get_climate_zone_def py_and_def predict_soil_characteristics_def py_lower_def
      lower_char_def py_in_str_def sublist_code(3) interpret_weather_code_def
      weather_codes_def generate_advice_def advice_sentences_def py_or_def rain_code_def
      Let_def erosion_warning_def red_yellow_soil_def)

theorem missing_weather_code_clear_sky_witness:
  "\<exists>r. get_agricultural_recommendation
         (sample_env (HttpOk pune_found) (HttpOk sparse_current_weather)) ''Pune''
       = ([], Inr (Report r))
     \<and> map_of [(''precipitation'', JNum 2)] ''weather_code'' = None
     \<and> w_condition (rep_weather r) = ''Clear sky''
     \<and> w_temperature (rep_weather r) = JStr ''N/A''
     \<and> w_humidity (rep_weather r) = JStr ''N/A''
     \<and> w_wind_speed (rep_weather r) = JStr ''N/A''
     \<and> w_precipitation (rep_weather r) = JNum 2"
proof -
  obtain r where r: "get_agricultural_recommendation
         (sample_env (HttpOk pune_found) (HttpOk sparse_current_weather)) ''Pune''
       = ([], Inr (Report r))"
    using recommendation_sparse by blast
  have cur: "py_get sparse_current_weather ''current'' (JObj [])
      = Inr (JObj [(''precipitation'', JNum 2)])"
    by (simp add: sparse_current_weather_def)
  have w: "weather_api (sample_env (HttpOk pune_found) (HttpOk sparse_current_weather))
      (JNum 18.52) (JNum 73.86) = HttpOk sparse_current_weather"
    by simp
  note t = missing_weather_code_clear_sky [OF r get_coordinates_pune w cur]
  obtain out1 lat lon name raw where
    c: "get_coordinates (sample_env (HttpOk pune_found) (HttpOk sparse_current_weather)) ''Pune''
        = (out1, Some (lat, lon, name))"
    and wa: "weather_api (sample_env (HttpOk pune_found) (HttpOk sparse_current_weather)) lat lon
        = HttpOk raw"
    and rep: "compile_report lat lon name raw = Inr r"
    using recommendation_report [OF r] by blast
  from wa have "raw = sparse_current_weather" by simp
  with rep cur compile_report_summary(3) [of lat lon name sparse_current_weather r]
  have "w_precipitation (rep_weather r) = JNum 2" by simp
  with r t show ?thesis by auto
qed

end
